theory Spec2Isabelle
  imports Main "HOL-Library.Sublist"
begin

section \<open>Data model\<close>

text \<open>
  The interfaces of the page component (\<^verbatim>\<open>Index\<close>) as records. TypeScript's
  \<^verbatim>\<open>number\<close> fields hold the integers that the hall form produces with
  \<^verbatim>\<open>parseInt\<close>, so they are modelled as \<open>int\<close> (negative values and zero
  included); \<^verbatim>\<open>Student | null\<close> and \<^verbatim>\<open>string | null\<close> are options.
  Field \<^verbatim>\<open>id\<close> of a student is called \<open>student_id\<close> and field
  \<^verbatim>\<open>name\<close> of a hall \<open>hall_name\<close>, since a field name is a constant of the
  theory and can be declared once.
\<close>

record Student =
  student_id :: string
  name :: string
  email :: string
  rollNumber :: string
  photo :: "string option"

record ExamHallData =
  hall_name :: string
  rows :: int
  seatsPerRow :: int
  totalSeats :: int

record SeatAssignment =
  row :: int
  seat :: int
  student :: "Student option"

text \<open>
  The three \<^verbatim>\<open>useState\<close> cells of \<^verbatim>\<open>Index\<close>. Every handler below is a
  transition on this record: it reads the cells of the current render and returns the
  cells after its \<^verbatim>\<open>set...\<close> calls.
\<close>

record IndexState =
  students :: "Student list"
  hallConfig :: "ExamHallData option"
  seatAssignments :: "SeatAssignment list"

definition initialState :: IndexState where
  "initialState = \<lparr>students = [], hallConfig = None, seatAssignments = []\<rparr>"

section \<open>Handlers of the page component\<close>

definition handleStudentAdded :: "Student \<Rightarrow> IndexState \<Rightarrow> IndexState" where
  "handleStudentAdded s st = st\<lparr>students := students st @ [s]\<rparr>"

definition handleHallConfigured :: "ExamHallData \<Rightarrow> IndexState \<Rightarrow> IndexState" where
  "handleHallConfigured config st = st\<lparr>hallConfig := Some config, seatAssignments := []\<rparr>"

subsection \<open>The next-free-seat finder\<close>

text \<open>
  \<^verbatim>\<open>seatAssignments.some(a => a.row === row && a.seat === seat && a.student)\<close>:
  a student object is truthy, \<^verbatim>\<open>null\<close> is not.
\<close>

fun isOccupied :: "SeatAssignment list \<Rightarrow> int \<Rightarrow> int \<Rightarrow> bool" where
  "isOccupied [] r s = False"
| "isOccupied (a # as) r s =
     ((row a = r \<and> seat a = s \<and> student a \<noteq> None) \<or> isOccupied as r s)"

text \<open>
  The inner \<^verbatim>\<open>for (let seat = 1; seat <= seatsPerRow; seat++)\<close> of the finder,
  from the current value of \<^verbatim>\<open>seat\<close>; \<open>Some\<close> is the early \<^verbatim>\<open>return\<close>
  of the coordinate (the object \<^verbatim>\<open>{ row, seat }\<close>, as a pair).
\<close>

function findNextAvailableSeat_seats ::
  "SeatAssignment list \<Rightarrow> int \<Rightarrow> int \<Rightarrow> int \<Rightarrow> (int \<times> int) option" where
  "findNextAvailableSeat_seats as c r s =
     (if s \<le> c then
        (if \<not> isOccupied as r s then Some (r, s)
         else findNextAvailableSeat_seats as c r (s + 1))
      else None)"
  by pat_completeness auto
termination
  by (relation "measure (\<lambda>(as, c, r, s). nat (c + 1 - s))") auto

text \<open>The outer \<^verbatim>\<open>for (let row = 1; row <= rows; row++)\<close> of the finder.\<close>

function findNextAvailableSeat_rows ::
  "SeatAssignment list \<Rightarrow> int \<Rightarrow> int \<Rightarrow> int \<Rightarrow> (int \<times> int) option" where
  "findNextAvailableSeat_rows as n c r =
     (if r \<le> n then
        (case findNextAvailableSeat_seats as c r 1 of
           Some p \<Rightarrow> Some p
         | None \<Rightarrow> findNextAvailableSeat_rows as n c (r + 1))
      else None)"
  by pat_completeness auto
termination
  by (relation "measure (\<lambda>(as, n, c, r). nat (n + 1 - r))") auto

definition findNextAvailableSeat :: "IndexState \<Rightarrow> (int \<times> int) option" where
  "findNextAvailableSeat st =
     (case hallConfig st of
        None \<Rightarrow> None
      | Some h \<Rightarrow> findNextAvailableSeat_rows (seatAssignments st) (rows h) (seatsPerRow h) 1)"

text \<open>
  \<^verbatim>\<open>handleStudentRecognized\<close> reads \<^verbatim>\<open>hallConfig\<close> and, through
  \<^verbatim>\<open>findNextAvailableSeat\<close>, \<^verbatim>\<open>seatAssignments\<close> from the render in
  which it was created, and appends with
  \<^verbatim>\<open>setSeatAssignments(prev => [...prev, newAssignment])\<close>, where
  \<^verbatim>\<open>prev\<close> is the list the page holds when the update runs. The model takes
  both: the state of the handler's render, and the state the page holds.
\<close>

definition handleStudentRecognized :: "Student \<Rightarrow> IndexState \<Rightarrow> IndexState \<Rightarrow> IndexState" where
  "handleStudentRecognized s render prev =
     (case hallConfig render of
        None \<Rightarrow> prev
      | Some h \<Rightarrow>
          (case findNextAvailableSeat render of
             None \<Rightarrow> prev
           | Some (r, c) \<Rightarrow>
               prev\<lparr>seatAssignments :=
                      seatAssignments prev @ [\<lparr>row = r, seat = c, student = Some s\<rparr>]\<rparr>))"

subsection \<open>The bulk allocator\<close>

text \<open>
  The inner loop of \<^verbatim>\<open>generateAutomaticSeating\<close>,
  \<^verbatim>\<open>for (let seat = 1; seat <= seatsPerRow && studentIndex < students.length; seat++)\<close>,
  as a function of the loop variables: it returns \<^verbatim>\<open>studentIndex\<close> and
  \<^verbatim>\<open>newAssignments\<close> as the loop leaves them. The guard keeps
  \<^verbatim>\<open>students[studentIndex]\<close> in range.
\<close>

function generateAutomaticSeating_seats ::
  "Student list \<Rightarrow> int \<Rightarrow> int \<Rightarrow> int \<Rightarrow> nat \<Rightarrow> SeatAssignment list
     \<Rightarrow> nat \<times> SeatAssignment list" where
  "generateAutomaticSeating_seats ss c r s studentIndex newAssignments =
     (if s \<le> c \<and> studentIndex < length ss then
        generateAutomaticSeating_seats ss c r (s + 1) (studentIndex + 1)
          (newAssignments @ [\<lparr>row = r, seat = s, student = Some (ss ! studentIndex)\<rparr>])
      else (studentIndex, newAssignments))"
  by pat_completeness auto
termination
  by (relation "measure (\<lambda>(ss, c, r, s, i, acc). length ss - i)") auto

text \<open>
  The outer loop,
  \<^verbatim>\<open>for (let row = 1; row <= rows && studentIndex < students.length; row++)\<close>.
\<close>

function generateAutomaticSeating_rows ::
  "Student list \<Rightarrow> int \<Rightarrow> int \<Rightarrow> int \<Rightarrow> nat \<Rightarrow> SeatAssignment list
     \<Rightarrow> SeatAssignment list" where
  "generateAutomaticSeating_rows ss n c r studentIndex newAssignments =
     (if r \<le> n \<and> studentIndex < length ss then
        (case generateAutomaticSeating_seats ss c r 1 studentIndex newAssignments of
           (studentIndex', newAssignments') \<Rightarrow>
             generateAutomaticSeating_rows ss n c (r + 1) studentIndex' newAssignments')
      else newAssignments)"
  by pat_completeness auto
termination
  by (relation "measure (\<lambda>(ss, n, c, r, i, acc). nat (n + 1 - r))") auto

definition generateAutomaticSeating :: "IndexState \<Rightarrow> IndexState" where
  "generateAutomaticSeating st =
     (case hallConfig st of
        None \<Rightarrow> st
      | Some h \<Rightarrow>
          st\<lparr>seatAssignments :=
               generateAutomaticSeating_rows (students st) (rows h) (seatsPerRow h) 1 0 []\<rparr>)"


subsection \<open>Export\<close>

text \<open>
  The object \<^verbatim>\<open>exportData\<close> that \<^verbatim>\<open>exportSeatingData\<close> builds and hands
  to \<^verbatim>\<open>JSON.stringify\<close>; \<open>now\<close> is \<^verbatim>\<open>new Date().toISOString()\<close>.
  The rendering as text, the download and the notification belong to the browser and
  are not modelled; the handler calls no \<^verbatim>\<open>set...\<close>, so the state stays.
  The fields \<^verbatim>\<open>hallConfig\<close> and \<^verbatim>\<open>students\<close> of the object carry the
  prefix \<open>export_\<close> here.
\<close>

record ExportData =
  export_hallConfig :: "ExamHallData option"
  export_students :: "Student list"
  assignments :: "SeatAssignment list"
  generatedAt :: string

definition exportSeatingData :: "string \<Rightarrow> IndexState \<Rightarrow> ExportData" where
  "exportSeatingData now st =
     \<lparr>export_hallConfig = hallConfig st,
      export_students = students st,
      assignments = filter (\<lambda>a. student a \<noteq> None) (seatAssignments st),
      generatedAt = now\<rparr>"

section \<open>The forms\<close>

text \<open>
  \<^verbatim>\<open>handleSubmit\<close> of \<^verbatim>\<open>ExamHallConfig\<close>. The form holds a name and two
  numbers (\<^verbatim>\<open>parseInt(...) || 0\<close>, an integer). The result is the argument of the
  call of \<^verbatim>\<open>onHallConfigured\<close>, \<open>None\<close> when the handler returns before it,
  and the title of the notification; the handler never writes the form.
\<close>

record HallFormData =
  form_name :: string
  form_rows :: int
  form_seatsPerRow :: int

definition ExamHallConfig_handleSubmit :: "HallFormData \<Rightarrow> ExamHallData option \<times> string" where
  "ExamHallConfig_handleSubmit f =
     (if form_name f = [] \<or> form_rows f < 1 \<or> form_seatsPerRow f < 1 then
        (None, ''Invalid Configuration'')
      else
        (Some \<lparr>hall_name = form_name f, rows = form_rows f, seatsPerRow = form_seatsPerRow f,
               totalSeats = form_rows f * form_seatsPerRow f\<rparr>,
         ''Hall Configured''))"

text \<open>
  \<^verbatim>\<open>handleSubmit\<close> of \<^verbatim>\<open>StudentRegistration\<close>. The form is the cell
  \<^verbatim>\<open>formData\<close> and the cell \<^verbatim>\<open>photo\<close>; \<^verbatim>\<open>!photo\<close> holds for
  \<^verbatim>\<open>null\<close> and for the empty string. \<open>now\<close> is
  \<^verbatim>\<open>Date.now().toString()\<close>. The result is the argument of the call of
  \<^verbatim>\<open>onStudentAdded\<close> (\<open>None\<close> when there is none), the form as the handler leaves
  it, and the title of the notification.
\<close>

record RegistrationForm =
  reg_name :: string
  reg_email :: string
  reg_rollNumber :: string
  reg_photo :: "string option"

definition StudentRegistration_handleSubmit ::
  "string \<Rightarrow> RegistrationForm \<Rightarrow> Student option \<times> RegistrationForm \<times> string" where
  "StudentRegistration_handleSubmit now g =
     (if reg_name g = [] \<or> reg_email g = [] \<or> reg_rollNumber g = [] \<or>
         reg_photo g = None \<or> reg_photo g = Some [] then
        (None, g, ''Missing Information'')
      else
        (Some \<lparr>student_id = now, name = reg_name g, email = reg_email g,
               rollNumber = reg_rollNumber g, photo = reg_photo g\<rparr>,
         \<lparr>reg_name = [], reg_email = [], reg_rollNumber = [], reg_photo = None\<rparr>,
         ''Student Registered''))"

text \<open>
  The page passes \<^verbatim>\<open>handleHallConfigured\<close> as \<^verbatim>\<open>onHallConfigured\<close> and
  \<^verbatim>\<open>handleStudentAdded\<close> as \<^verbatim>\<open>onStudentAdded\<close>: a submission acts on
  the page's state through the callback, if the handler reaches it.
\<close>

definition submitHallForm :: "HallFormData \<Rightarrow> IndexState \<Rightarrow> IndexState" where
  "submitHallForm f st =
     (case fst (ExamHallConfig_handleSubmit f) of
        None \<Rightarrow> st
      | Some config \<Rightarrow> handleHallConfigured config st)"

definition submitRegistration :: "string \<Rightarrow> RegistrationForm \<Rightarrow> IndexState \<Rightarrow> IndexState" where
  "submitRegistration now g st =
     (case fst (StudentRegistration_handleSubmit now g) of
        None \<Rightarrow> st
      | Some s \<Rightarrow> handleStudentAdded s st)"

section \<open>Runs of the page\<close>

text \<open>
  The page between two events: the cells of \<^verbatim>\<open>Index\<close>, and the renders held by
  the calls of \<^verbatim>\<open>simulateRecognition\<close> (component
  \<^verbatim>\<open>FacialRecognition\<close>) that are waiting in their two seconds'
  \<^verbatim>\<open>await\<close>. Such a call keeps the \<^verbatim>\<open>students\<close> and the
  \<^verbatim>\<open>onStudentRecognized\<close> of the render in which the scan was started.
\<close>

record PageState =
  live :: IndexState
  pendingScans :: "IndexState list"

definition initialPage :: PageState where
  "initialPage = \<lparr>live = initialState, pendingScans = []\<rparr>"

text \<open>
  The events of the page. \<open>ScanStarted\<close> is a call of
  \<^verbatim>\<open>simulateRecognition\<close>, which returns at once when no student is registered.
  \<open>ScanRecognized i k\<close> is the end of the wait of pending scan \<open>i\<close> with
  \<^verbatim>\<open>recognitionSuccess\<close> true and
  \<^verbatim>\<open>Math.floor(Math.random() * students.length)\<close> equal to \<open>k\<close>, an index
  of the scan's own list; \<open>ScanFailed i\<close> is its end with
  \<^verbatim>\<open>recognitionSuccess\<close> false.
\<close>

datatype Event =
    StudentAdded Student
  | HallConfigured ExamHallData
  | GenerateSeating
  | ScanStarted
  | ScanRecognized nat nat
  | ScanFailed nat

definition dropScan :: "nat \<Rightarrow> IndexState list \<Rightarrow> IndexState list" where
  "dropScan i scans = take i scans @ drop (Suc i) scans"

fun step :: "Event \<Rightarrow> PageState \<Rightarrow> PageState" where
  "step (StudentAdded s) p = p\<lparr>live := handleStudentAdded s (live p)\<rparr>"
| "step (HallConfigured config) p = p\<lparr>live := handleHallConfigured config (live p)\<rparr>"
| "step GenerateSeating p = p\<lparr>live := generateAutomaticSeating (live p)\<rparr>"
| "step ScanStarted p =
     (if students (live p) = [] then p
      else p\<lparr>pendingScans := pendingScans p @ [live p]\<rparr>)"
| "step (ScanRecognized i k) p =
     (if i < length (pendingScans p) \<and> k < length (students (pendingScans p ! i)) then
        \<lparr>live = handleStudentRecognized (students (pendingScans p ! i) ! k)
                  (pendingScans p ! i) (live p),
         pendingScans = dropScan i (pendingScans p)\<rparr>
      else p)"
| "step (ScanFailed i) p =
     (if i < length (pendingScans p) then p\<lparr>pendingScans := dropScan i (pendingScans p)\<rparr>
      else p)"

fun run :: "PageState \<Rightarrow> Event list \<Rightarrow> PageState" where
  "run p [] = p"
| "run p (e # es) = run (step e p) es"

section \<open>The specification's vocabulary\<close>

definition coord :: "SeatAssignment \<Rightarrow> int \<times> int" where
  "coord a = (row a, seat a)"

text \<open>
  Row-major filling in the specification's words: student \<open>i\<close> (counted from 0) of
  the first \<open>n\<close> sits in row \<open>\<lfloor>i / c\<rfloor> + 1\<close>, seat \<open>i mod c + 1\<close>.
\<close>

definition rowMajorFill :: "int \<Rightarrow> Student list \<Rightarrow> nat \<Rightarrow> SeatAssignment list" where
  "rowMajorFill c ss k =
     map (\<lambda>i. \<lparr>row = int i div c + 1, seat = int i mod c + 1, student = Some (ss ! i)\<rparr>) [0..<k]"

text \<open>
  The finder in the specification's words: of the coordinates of rows \<open>1..n\<close> and seats
  \<open>1..c\<close>, listed row by row, the first that no entry with a student occupies.
\<close>

definition firstFreeRowMajor :: "SeatAssignment list \<Rightarrow> int \<Rightarrow> int \<Rightarrow> (int \<times> int) option" where
  "firstFreeRowMajor as n c =
     find (\<lambda>p. \<not> isOccupied as (fst p) (snd p)) (List.product [1..n] [1..c])"

section \<open>Sample inputs\<close>

text \<open>Concrete students, halls and states on which the theorems below are instantiated.\<close>

definition sampleStudent :: "string \<Rightarrow> Student" where
  "sampleStudent n =
     \<lparr>student_id = n, name = n, email = n @ ''@example.org'', rollNumber = n,
      photo = Some ''data:image/png;base64,AA==''\<rparr>"

definition sampleHall :: "int \<Rightarrow> int \<Rightarrow> ExamHallData" where
  "sampleHall n c = \<lparr>hall_name = ''Hall'', rows = n, seatsPerRow = c, totalSeats = n * c\<rparr>"

definition sampleState :: "string list \<Rightarrow> int \<Rightarrow> int \<Rightarrow> IndexState" where
  "sampleState ns n c =
     \<lparr>students = map sampleStudent ns, hallConfig = Some (sampleHall n c), seatAssignments = []\<rparr>"

definition sampleSeated :: "(int \<times> int \<times> string) list \<Rightarrow> SeatAssignment list" where
  "sampleSeated xs =
     map (\<lambda>(r, s, n). \<lparr>row = r, seat = s, student = Some (sampleStudent n)\<rparr>) xs"

text \<open>A hall of 2 by 2 with every seat but \<open>(1, 1)\<close> taken, and a full hall of 1 by 2.\<close>

definition sampleCornerFree :: IndexState where
  "sampleCornerFree =
     (sampleState [] 2 2)\<lparr>seatAssignments :=
        sampleSeated [(2, 2, ''A''), (1, 2, ''B''), (2, 1, ''C'')]\<rparr>"

definition sampleFull :: IndexState where
  "sampleFull =
     (sampleState [] 1 2)\<lparr>seatAssignments := sampleSeated [(1, 2, ''B''), (1, 1, ''A'')]\<rparr>"

text \<open>
  A session in which every scan ends before the next event: two registrations, a hall
  of 1 by 2, a recognition, a bulk allocation, a recognition in the full hall, a hall
  of 2 by 2, and recognitions again, one of them failed.
\<close>

definition sampleRun :: "Event list" where
  "sampleRun =
     [StudentAdded (sampleStudent ''A''), StudentAdded (sampleStudent ''B''),
      HallConfigured (sampleHall 1 2), ScanStarted, ScanRecognized 0 1,
      GenerateSeating, ScanStarted, ScanRecognized 0 0,
      HallConfigured (sampleHall 2 2), ScanStarted, ScanRecognized 0 0,
      StudentAdded (sampleStudent ''C''), ScanStarted, ScanFailed 0,
      ScanStarted, ScanRecognized 0 0]"

text \<open>
  A session in which the bulk allocation falls into the wait of a scan: two
  registrations, a hall of 2 by 2, a scan started, the bulk allocation, and the scan
  ending with the first student recognised.
\<close>

definition sampleStaleRun :: "Event list" where
  "sampleStaleRun =
     [StudentAdded (sampleStudent ''A''), StudentAdded (sampleStudent ''B''),
      HallConfigured (sampleHall 2 2), ScanStarted, GenerateSeating, ScanRecognized 0 0]"

text \<open>A state whose list holds an entry without a student, as the type allows.\<close>

definition sampleWithEmptySeat :: IndexState where
  "sampleWithEmptySeat =
     (sampleState [''A''] 1 2)\<lparr>seatAssignments :=
        [\<lparr>row = 1, seat = 1, student = Some (sampleStudent ''A'')\<rparr>,
         \<lparr>row = 1, seat = 2, student = None\<rparr>]\<rparr>"

text \<open>A hall form with no rows, and a registration form with no photo.\<close>

definition sampleHallForm :: HallFormData where
  "sampleHallForm = \<lparr>form_name = ''Hall'', form_rows = 0, form_seatsPerRow = 8\<rparr>"

definition sampleRegistration :: RegistrationForm where
  "sampleRegistration =
     \<lparr>reg_name = ''A'', reg_email = ''a@example.org'', reg_rollNumber = ''1'',
      reg_photo = None\<rparr>"

section \<open>The loops of the bulk allocator, characterised\<close>

declare generateAutomaticSeating_seats.simps [simp del]
declare generateAutomaticSeating_rows.simps [simp del]
declare findNextAvailableSeat_seats.simps [simp del]
declare findNextAvailableSeat_rows.simps [simp del]

lemma rowMajorFill_Suc:
  "rowMajorFill c ss (Suc n) =
     rowMajorFill c ss n @ [\<lparr>row = int n div c + 1, seat = int n mod c + 1, student = Some (ss ! n)\<rparr>]"
  by (simp add: rowMajorFill_def)

lemma cell_div: "1 \<le> (c::int) \<Longrightarrow> 1 \<le> s \<Longrightarrow> s \<le> c \<Longrightarrow> ((r - 1) * c + (s - 1)) div c + 1 = r"
  by simp

lemma cell_mod: "1 \<le> (c::int) \<Longrightarrow> 1 \<le> s \<Longrightarrow> s \<le> c \<Longrightarrow> ((r - 1) * c + (s - 1)) mod c + 1 = s"
  by simp

lemma seats_fill:
  "1 \<le> c \<Longrightarrow> 1 \<le> r \<Longrightarrow> 1 \<le> s \<Longrightarrow> s \<le> c + 1 \<Longrightarrow> int i = (r - 1) * c + (s - 1) \<Longrightarrow>
   i \<le> length ss \<Longrightarrow> acc = rowMajorFill c ss i \<Longrightarrow>
   generateAutomaticSeating_seats ss c r s i acc =
     (min (length ss) (nat (r * c)), rowMajorFill c ss (min (length ss) (nat (r * c))))"
proof (induction ss c r s i acc rule: generateAutomaticSeating_seats.induct)
  case (1 ss c r s i acc)
  show ?case
  proof (cases "s \<le> c \<and> i < length ss")
    case True
    have d: "int i div c + 1 = r" using 1 True by (simp add: cell_div)
    have m: "int i mod c + 1 = s" using 1 True by (simp add: cell_mod)
    have acc': "acc @ [\<lparr>row = r, seat = s, student = Some (ss ! i)\<rparr>] = rowMajorFill c ss (i + 1)"
      using 1(8) d m by (simp add: rowMajorFill_Suc)
    have idx: "int (i + 1) = (r - 1) * c + (s + 1 - 1)" using 1(6) by simp
    have "generateAutomaticSeating_seats ss c r (s + 1) (i + 1)
            (acc @ [\<lparr>row = r, seat = s, student = Some (ss ! i)\<rparr>]) =
          (min (length ss) (nat (r * c)), rowMajorFill c ss (min (length ss) (nat (r * c))))"
      using True 1(2,3,4) idx acc' by (intro 1(1)) auto
    then show ?thesis
      using True by (subst generateAutomaticSeating_seats.simps) simp
  next
    case False
    have rc: "r * c = (r - 1) * c + c" by (simp add: algebra_simps)
    have "i = min (length ss) (nat (r * c))"
    proof (cases "s \<le> c")
      case True
      then have "i = length ss" using False 1(7) by simp
      moreover have "int i \<le> r * c" using 1(6) True rc by linarith
      ultimately show ?thesis by linarith
    next
      case False
      then have "s = c + 1" using 1(5) by simp
      then have "int i = r * c" using 1(6) rc by simp
      then show ?thesis using 1(7) by linarith
    qed
    then show ?thesis
      using False 1(8) by (subst generateAutomaticSeating_seats.simps) auto
  qed
qed


lemma rows_fill:
  "1 \<le> c \<Longrightarrow> 1 \<le> r \<Longrightarrow> r \<le> n + 1 \<Longrightarrow> i = min (length ss) (nat ((r - 1) * c)) \<Longrightarrow>
   acc = rowMajorFill c ss i \<Longrightarrow>
   generateAutomaticSeating_rows ss n c r i acc =
     rowMajorFill c ss (min (length ss) (nat (n * c)))"
proof (induction ss n c r i acc rule: generateAutomaticSeating_rows.induct)
  case (1 ss n c r i acc)
  show ?case
  proof (cases "r \<le> n \<and> i < length ss")
    case True
    have nonneg: "0 \<le> (r - 1) * c" using 1(2,3) by simp
    have "i = nat ((r - 1) * c)" using True 1(5) by linarith
    then have i_eq: "int i = (r - 1) * c + (1 - 1)" using nonneg by simp
    have inner: "generateAutomaticSeating_seats ss c r 1 i acc =
        (min (length ss) (nat (r * c)), rowMajorFill c ss (min (length ss) (nat (r * c))))"
      using 1(2,3,6) True i_eq by (intro seats_fill) auto
    have "generateAutomaticSeating_rows ss n c (r + 1) (min (length ss) (nat (r * c)))
            (rowMajorFill c ss (min (length ss) (nat (r * c)))) =
          rowMajorFill c ss (min (length ss) (nat (n * c)))"
      using True 1(2,3) by (intro 1(1)[OF True inner[symmetric]]) auto
    then show ?thesis
      using True inner by (subst generateAutomaticSeating_rows.simps) simp
  next
    case False
    have "i = min (length ss) (nat (n * c))"
    proof (cases "r \<le> n")
      case True
      then have "i = length ss" using False 1(5) by simp
      moreover have "(r - 1) * c \<le> n * c" using True 1(2) by (intro mult_right_mono) auto
      ultimately show ?thesis using 1(5) by linarith
    next
      case False
      then have "r - 1 = n" using 1(4) by simp
      then show ?thesis using 1(5) by simp
    qed
    then show ?thesis
      using False 1(6) by (subst generateAutomaticSeating_rows.simps) auto
  qed
qed

lemma rows_no_seats:
  "c < 1 \<Longrightarrow> generateAutomaticSeating_rows ss n c r i acc = acc"
proof (induction ss n c r i acc rule: generateAutomaticSeating_rows.induct)
  case (1 ss n c r i acc)
  have inner: "generateAutomaticSeating_seats ss c r 1 i acc = (i, acc)"
    using 1(2) by (subst generateAutomaticSeating_seats.simps) simp
  show ?case
  proof (cases "r \<le> n \<and> i < length ss")
    case True
    then show ?thesis
      using 1(1)[OF True inner[symmetric] 1(2)] inner
      by (subst generateAutomaticSeating_rows.simps) simp
  next
    case False
    then show ?thesis by (subst generateAutomaticSeating_rows.simps) auto
  qed
qed

lemma rows_no_rows:
  "n < r \<Longrightarrow> generateAutomaticSeating_rows ss n c r i acc = acc"
  by (subst generateAutomaticSeating_rows.simps) simp

lemma rowMajorFill_0: "rowMajorFill c ss 0 = []"
  by (simp add: rowMajorFill_def)

lemma allocate:
  "generateAutomaticSeating_rows ss n c 1 0 [] =
     (if 1 \<le> n \<and> 1 \<le> c then rowMajorFill c ss (min (length ss) (nat (n * c))) else [])"
proof (cases "1 \<le> n \<and> 1 \<le> c")
  case True
  then show ?thesis using rows_fill[of c 1 n 0 ss "[]"] by (simp add: rowMajorFill_0)
next
  case False
  then show ?thesis using rows_no_seats[of c ss n 1 0 "[]"] rows_no_rows[of n 1 ss c 0 "[]"]
    by auto
qed


lemma length_rowMajorFill: "length (rowMajorFill c ss k) = k"
  by (simp add: rowMajorFill_def)

lemma nth_rowMajorFill:
  "i < k \<Longrightarrow> rowMajorFill c ss k ! i =
     \<lparr>row = int i div c + 1, seat = int i mod c + 1, student = Some (ss ! i)\<rparr>"
  by (simp add: rowMajorFill_def)

lemma student_rowMajorFill:
  "k \<le> length ss \<Longrightarrow> map student (rowMajorFill c ss k) = map Some (take k ss)"
  by (auto simp: rowMajorFill_def intro!: nth_equalityI)

lemma coord_rowMajorFill:
  "map coord (rowMajorFill c ss k) = map (\<lambda>i. (int i div c + 1, int i mod c + 1)) [0..<k]"
  by (simp add: rowMajorFill_def coord_def)

lemma inj_cell: "inj (\<lambda>i::nat. (int i div c + 1, int i mod c + 1))"
proof (rule injI)
  fix i j :: nat
  assume "(int i div c + 1, int i mod c + 1) = (int j div c + 1, int j mod c + 1)"
  then have "int i div c = int j div c" and "int i mod c = int j mod c" by simp_all
  then have "int i = int j" by (metis div_mult_mod_eq)
  then show "i = j" by simp
qed

lemma distinct_rowMajorFill: "distinct (map coord (rowMajorFill c ss k))"
  unfolding coord_rowMajorFill
  by (rule iffD2[OF distinct_map]) (simp add: inj_on_subset[OF inj_cell])

lemma seatAssignments_generate:
  "hallConfig st = Some h \<Longrightarrow>
   seatAssignments (generateAutomaticSeating st) =
     (if 1 \<le> rows h \<and> 1 \<le> seatsPerRow h
      then rowMajorFill (seatsPerRow h) (students st)
             (min (length (students st)) (nat (rows h * seatsPerRow h)))
      else [])"
  by (simp add: generateAutomaticSeating_def allocate)

lemma student_in_rowMajorFill: "a \<in> set (rowMajorFill c ss k) \<Longrightarrow> student a \<noteq> None"
  by (auto simp: rowMajorFill_def)

lemma coord_set_rowMajorFill:
  "coord ` set (rowMajorFill c ss k) = (\<lambda>i. (int i div c + 1, int i mod c + 1)) ` {0..<k}"
proof -
  have "coord ` set (rowMajorFill c ss k) = set (map coord (rowMajorFill c ss k))" by simp
  also have "\<dots> = (\<lambda>i. (int i div c + 1, int i mod c + 1)) ` {0..<k}"
    unfolding coord_rowMajorFill by simp
  finally show ?thesis .
qed

section \<open>The bulk allocator\<close>

text \<open>
  Claim C1. For a hall of \<open>R \<ge> 1\<close> rows and \<open>C \<ge> 1\<close> seats per row and a list of
  \<open>N \<le> R * C\<close> students, \<^verbatim>\<open>generateAutomaticSeating\<close> stores exactly \<open>N\<close>
  assignments, at pairwise distinct coordinates, and the \<open>i\<close>-th of them (from 0) seats
  student \<open>i\<close> in row \<open>\<lfloor>i / C\<rfloor> + 1\<close>, seat \<open>i mod C + 1\<close>: row-major order from
  \<open>(1, 1)\<close>.
\<close>

theorem bulk_allocator_row_major:
  assumes "hallConfig st = Some h" and "1 \<le> rows h" and "1 \<le> seatsPerRow h"
    and "int (length (students st)) \<le> rows h * seatsPerRow h"
  shows "length (seatAssignments (generateAutomaticSeating st)) = length (students st) \<and>
     distinct (map coord (seatAssignments (generateAutomaticSeating st))) \<and>
     (\<forall>i < length (students st).
        seatAssignments (generateAutomaticSeating st) ! i =
          \<lparr>row = int i div seatsPerRow h + 1, seat = int i mod seatsPerRow h + 1,
           student = Some (students st ! i)\<rparr>)"
proof -
  have k: "min (length (students st)) (nat (rows h * seatsPerRow h)) = length (students st)"
    using assms(4) by linarith
  have out: "seatAssignments (generateAutomaticSeating st) =
      rowMajorFill (seatsPerRow h) (students st) (length (students st))"
    using assms(1,2,3) k by (simp add: seatAssignments_generate)
  show ?thesis
    unfolding out by (simp add: length_rowMajorFill distinct_rowMajorFill nth_rowMajorFill)
qed

theorem bulk_allocator_row_major_witness:
  "hallConfig (sampleState [''A'', ''B'', ''C''] 2 2) = Some (sampleHall 2 2) \<and>
   1 \<le> rows (sampleHall 2 2) \<and> 1 \<le> seatsPerRow (sampleHall 2 2) \<and>
   int (length (students (sampleState [''A'', ''B'', ''C''] 2 2)))
     \<le> rows (sampleHall 2 2) * seatsPerRow (sampleHall 2 2) \<and>
   length (seatAssignments (generateAutomaticSeating (sampleState [''A'', ''B'', ''C''] 2 2))) = 3 \<and>
   distinct (map coord
     (seatAssignments (generateAutomaticSeating (sampleState [''A'', ''B'', ''C''] 2 2)))) \<and>
   seatAssignments (generateAutomaticSeating (sampleState [''A'', ''B'', ''C''] 2 2)) ! 2 =
     \<lparr>row = 2, seat = 1, student = Some (sampleStudent ''C'')\<rparr>"
proof -
  have h: "hallConfig (sampleState [''A'', ''B'', ''C''] 2 2) = Some (sampleHall 2 2)"
    "1 \<le> rows (sampleHall 2 2)" "1 \<le> seatsPerRow (sampleHall 2 2)"
    "int (length (students (sampleState [''A'', ''B'', ''C''] 2 2)))
       \<le> rows (sampleHall 2 2) * seatsPerRow (sampleHall 2 2)"
    by (simp_all add: sampleState_def sampleHall_def)
  have len: "length (students (sampleState [''A'', ''B'', ''C''] 2 2)) = 3"
    by (simp add: sampleState_def)
  have third: "students (sampleState [''A'', ''B'', ''C''] 2 2) ! 2 = sampleStudent ''C''"
    by (simp add: sampleState_def)
  have two: "(2::nat) < 3" by simp
  from bulk_allocator_row_major[OF h] show ?thesis
    unfolding len using h two third by (auto simp: sampleHall_def)
qed


text \<open>
  Claim C2. For a hall of \<open>R\<close> rows and \<open>C\<close> seats per row (counts, so not negative)
  and a list of \<open>N > R * C\<close> students, \<^verbatim>\<open>generateAutomaticSeating\<close> stores
  exactly \<open>R * C\<close> assignments, whose students are the first \<open>R * C\<close> of the list in
  the list's order; the rest are dropped, and the handler ends normally with the list of
  students and the hall as they were.
\<close>

theorem bulk_allocator_truncates:
  assumes "hallConfig st = Some h" and "0 \<le> rows h" and "0 \<le> seatsPerRow h"
    and "rows h * seatsPerRow h < int (length (students st))"
  shows "length (seatAssignments (generateAutomaticSeating st)) = nat (rows h * seatsPerRow h) \<and>
     map student (seatAssignments (generateAutomaticSeating st)) =
       map Some (take (nat (rows h * seatsPerRow h)) (students st)) \<and>
     students (generateAutomaticSeating st) = students st \<and>
     hallConfig (generateAutomaticSeating st) = hallConfig st"
proof (cases "1 \<le> rows h \<and> 1 \<le> seatsPerRow h")
  case True
  have k: "min (length (students st)) (nat (rows h * seatsPerRow h)) = nat (rows h * seatsPerRow h)"
    using assms(4) by linarith
  have le: "nat (rows h * seatsPerRow h) \<le> length (students st)"
    using assms(4) by linarith
  have out: "seatAssignments (generateAutomaticSeating st) =
      rowMajorFill (seatsPerRow h) (students st) (nat (rows h * seatsPerRow h))"
    using assms(1) True k by (simp add: seatAssignments_generate)
  show ?thesis
    unfolding out using assms(1) le
    by (simp add: length_rowMajorFill student_rowMajorFill generateAutomaticSeating_def)
next
  case False
  then have "rows h = 0 \<or> seatsPerRow h = 0" using assms(2,3) by linarith
  then have z: "rows h * seatsPerRow h = 0" by auto
  have out: "seatAssignments (generateAutomaticSeating st) = []"
    using False by (auto simp: seatAssignments_generate[OF assms(1)])
  show ?thesis
    unfolding out z using assms(1) by (simp add: generateAutomaticSeating_def)
qed

theorem bulk_allocator_truncates_witness:
  "hallConfig (sampleState [''A'', ''B'', ''C''] 1 2) = Some (sampleHall 1 2) \<and>
   0 \<le> rows (sampleHall 1 2) \<and> 0 \<le> seatsPerRow (sampleHall 1 2) \<and>
   rows (sampleHall 1 2) * seatsPerRow (sampleHall 1 2)
     < int (length (students (sampleState [''A'', ''B'', ''C''] 1 2))) \<and>
   length (seatAssignments (generateAutomaticSeating (sampleState [''A'', ''B'', ''C''] 1 2))) = 2 \<and>
   map student (seatAssignments (generateAutomaticSeating (sampleState [''A'', ''B'', ''C''] 1 2))) =
     [Some (sampleStudent ''A''), Some (sampleStudent ''B'')]"
proof -
  have h: "hallConfig (sampleState [''A'', ''B'', ''C''] 1 2) = Some (sampleHall 1 2)"
    "0 \<le> rows (sampleHall 1 2)" "0 \<le> seatsPerRow (sampleHall 1 2)"
    "rows (sampleHall 1 2) * seatsPerRow (sampleHall 1 2)
       < int (length (students (sampleState [''A'', ''B'', ''C''] 1 2)))"
    by (simp_all add: sampleState_def sampleHall_def)
  have cap: "nat (rows (sampleHall 1 2) * seatsPerRow (sampleHall 1 2)) = 2"
    by (simp add: sampleHall_def)
  have first: "take 2 (students (sampleState [''A'', ''B'', ''C''] 1 2)) =
      [sampleStudent ''A'', sampleStudent ''B'']"
    by (simp add: sampleState_def)
  from bulk_allocator_truncates[OF h] show ?thesis
    unfolding cap first using h by simp
qed

text \<open>
  Claim C3, as the specification has it, asks for an entry for each of the \<open>R * C\<close>
  seats, those after the first \<open>N\<close> with no student. The loops stop at the last
  student: for a hall of 2 by 2 and three students the list has three entries and none
  for seat \<open>(2, 2)\<close>, and for no students it is empty.
\<close>

theorem bulk_allocator_pads_counterexample:
  "seatAssignments (generateAutomaticSeating (sampleState [''A'', ''B'', ''C''] 2 2)) =
     [\<lparr>row = 1, seat = 1, student = Some (sampleStudent ''A'')\<rparr>,
      \<lparr>row = 1, seat = 2, student = Some (sampleStudent ''B'')\<rparr>,
      \<lparr>row = 2, seat = 1, student = Some (sampleStudent ''C'')\<rparr>] \<and>
   seatAssignments (generateAutomaticSeating (sampleState [''A'', ''B'', ''C''] 2 2)) \<noteq>
     [\<lparr>row = 1, seat = 1, student = Some (sampleStudent ''A'')\<rparr>,
      \<lparr>row = 1, seat = 2, student = Some (sampleStudent ''B'')\<rparr>,
      \<lparr>row = 2, seat = 1, student = Some (sampleStudent ''C'')\<rparr>,
      \<lparr>row = 2, seat = 2, student = None\<rparr>] \<and>
   seatAssignments (generateAutomaticSeating (sampleState [] 2 2)) = [] \<and>
   seatAssignments (generateAutomaticSeating (sampleState [] 2 2)) \<noteq>
     [\<lparr>row = 1, seat = 1, student = None\<rparr>, \<lparr>row = 1, seat = 2, student = None\<rparr>,
      \<lparr>row = 2, seat = 1, student = None\<rparr>, \<lparr>row = 2, seat = 2, student = None\<rparr>]"
proof -
  have three: "seatAssignments (generateAutomaticSeating (sampleState [''A'', ''B'', ''C''] 2 2)) =
     [\<lparr>row = 1, seat = 1, student = Some (sampleStudent ''A'')\<rparr>,
      \<lparr>row = 1, seat = 2, student = Some (sampleStudent ''B'')\<rparr>,
      \<lparr>row = 2, seat = 1, student = Some (sampleStudent ''C'')\<rparr>]"
    by (simp add: generateAutomaticSeating_def sampleState_def sampleHall_def
        generateAutomaticSeating_rows.simps generateAutomaticSeating_seats.simps)
  have none: "seatAssignments (generateAutomaticSeating (sampleState [] 2 2)) = []"
    by (simp add: generateAutomaticSeating_def sampleState_def sampleHall_def
        generateAutomaticSeating_rows.simps)
  show ?thesis unfolding three none by simp
qed

text \<open>
  Claim C3, amended. For a hall of \<open>R\<close> rows and \<open>C\<close> seats per row and a list of
  \<open>N < R * C\<close> students, the output has exactly \<open>N\<close> entries, each with a student,
  at the first \<open>N\<close> seats in row-major order, entry \<open>i\<close> (from 0) holding student
  \<open>i\<close> at row \<open>\<lfloor>i / C\<rfloor> + 1\<close>, seat \<open>i mod C + 1\<close>; the seats after them have no
  entry. For
  \<open>R = 2\<close>, \<open>C = 2\<close> and students \<open>[a, b, c]\<close> it is \<open>(1,1,a), (1,2,b), (2,1,c)\<close>,
  and for no students it is empty.
\<close>

theorem bulk_allocator_lists_seated_only:
  assumes "hallConfig st = Some h"
  shows "(0 \<le> rows h \<and> 0 \<le> seatsPerRow h \<and>
          int (length (students st)) < rows h * seatsPerRow h \<longrightarrow>
            length (seatAssignments (generateAutomaticSeating st)) = length (students st) \<and>
            (\<forall>a \<in> set (seatAssignments (generateAutomaticSeating st)). student a \<noteq> None) \<and>
            coord ` set (seatAssignments (generateAutomaticSeating st)) =
              (\<lambda>i. (int i div seatsPerRow h + 1, int i mod seatsPerRow h + 1)) `
                {0..<length (students st)} \<and>
            seatAssignments (generateAutomaticSeating st) =
              map (\<lambda>i. \<lparr>row = int i div seatsPerRow h + 1,
                         seat = int i mod seatsPerRow h + 1,
                         student = Some (students st ! i)\<rparr>)
                [0..<length (students st)]) \<and>
         (rows h = 2 \<and> seatsPerRow h = 2 \<and> students st = [a, b, c] \<longrightarrow>
            seatAssignments (generateAutomaticSeating st) =
              [\<lparr>row = 1, seat = 1, student = Some a\<rparr>,
               \<lparr>row = 1, seat = 2, student = Some b\<rparr>,
               \<lparr>row = 2, seat = 1, student = Some c\<rparr>]) \<and>
         (rows h = 2 \<and> seatsPerRow h = 2 \<and> students st = [] \<longrightarrow>
            seatAssignments (generateAutomaticSeating st) = [])"
proof (intro conjI impI)
  assume a: "0 \<le> rows h \<and> 0 \<le> seatsPerRow h \<and>
    int (length (students st)) < rows h * seatsPerRow h"
  have pos: "1 \<le> rows h \<and> 1 \<le> seatsPerRow h"
  proof (rule ccontr)
    assume "\<not> (1 \<le> rows h \<and> 1 \<le> seatsPerRow h)"
    then have "rows h = 0 \<or> seatsPerRow h = 0" using a by linarith
    then show False using a by auto
  qed
  have k: "min (length (students st)) (nat (rows h * seatsPerRow h)) = length (students st)"
    using a by linarith
  have out: "seatAssignments (generateAutomaticSeating st) =
      rowMajorFill (seatsPerRow h) (students st) (length (students st))"
    using pos k by (simp add: seatAssignments_generate[OF assms])
  show "length (seatAssignments (generateAutomaticSeating st)) = length (students st)"
    unfolding out by (rule length_rowMajorFill)
  show "\<forall>a \<in> set (seatAssignments (generateAutomaticSeating st)). student a \<noteq> None"
    unfolding out by (blast dest: student_in_rowMajorFill)
  show "coord ` set (seatAssignments (generateAutomaticSeating st)) =
      (\<lambda>i. (int i div seatsPerRow h + 1, int i mod seatsPerRow h + 1)) `
        {0..<length (students st)}"
    unfolding out by (rule coord_set_rowMajorFill)
  show "seatAssignments (generateAutomaticSeating st) =
      map (\<lambda>i. \<lparr>row = int i div seatsPerRow h + 1,
                 seat = int i mod seatsPerRow h + 1,
                 student = Some (students st ! i)\<rparr>)
        [0..<length (students st)]"
    unfolding out by (simp add: rowMajorFill_def)
next
  assume "rows h = 2 \<and> seatsPerRow h = 2 \<and> students st = [a, b, c]"
  then show "seatAssignments (generateAutomaticSeating st) =
      [\<lparr>row = 1, seat = 1, student = Some a\<rparr>,
       \<lparr>row = 1, seat = 2, student = Some b\<rparr>,
       \<lparr>row = 2, seat = 1, student = Some c\<rparr>]"
    using assms
    by (simp add: generateAutomaticSeating_def
        generateAutomaticSeating_rows.simps generateAutomaticSeating_seats.simps)
next
  assume "rows h = 2 \<and> seatsPerRow h = 2 \<and> students st = []"
  then show "seatAssignments (generateAutomaticSeating st) = []"
    using assms
    by (simp add: generateAutomaticSeating_def generateAutomaticSeating_rows.simps)
qed

theorem bulk_allocator_lists_seated_only_witness:
  "hallConfig (sampleState [''A'', ''B'', ''C''] 2 2) = Some (sampleHall 2 2) \<and>
   0 \<le> rows (sampleHall 2 2) \<and> 0 \<le> seatsPerRow (sampleHall 2 2) \<and>
   int (length (students (sampleState [''A'', ''B'', ''C''] 2 2)))
     < rows (sampleHall 2 2) * seatsPerRow (sampleHall 2 2) \<and>
   students (sampleState [''A'', ''B'', ''C''] 2 2) =
     [sampleStudent ''A'', sampleStudent ''B'', sampleStudent ''C''] \<and>
   length (seatAssignments (generateAutomaticSeating (sampleState [''A'', ''B'', ''C''] 2 2))) = 3 \<and>
   seatAssignments (generateAutomaticSeating (sampleState [''A'', ''B'', ''C''] 2 2)) =
     [\<lparr>row = 1, seat = 1, student = Some (sampleStudent ''A'')\<rparr>,
      \<lparr>row = 1, seat = 2, student = Some (sampleStudent ''B'')\<rparr>,
      \<lparr>row = 2, seat = 1, student = Some (sampleStudent ''C'')\<rparr>] \<and>
   hallConfig (sampleState [] 2 2) = Some (sampleHall 2 2) \<and>
   students (sampleState [] 2 2) = [] \<and>
   seatAssignments (generateAutomaticSeating (sampleState [] 2 2)) = []"
proof -
  have h3: "hallConfig (sampleState [''A'', ''B'', ''C''] 2 2) = Some (sampleHall 2 2)"
    and h0: "hallConfig (sampleState [] 2 2) = Some (sampleHall 2 2)"
    by (simp_all add: sampleState_def)
  have dims: "rows (sampleHall 2 2) = 2" "seatsPerRow (sampleHall 2 2) = 2"
    by (simp_all add: sampleHall_def)
  have s3: "students (sampleState [''A'', ''B'', ''C''] 2 2) =
      [sampleStudent ''A'', sampleStudent ''B'', sampleStudent ''C'']"
    and s0: "students (sampleState [] 2 2) = []"
    by (simp_all add: sampleState_def)
  note full = bulk_allocator_lists_seated_only[OF h3,
      of "sampleStudent ''A''" "sampleStudent ''B''" "sampleStudent ''C''"]
  note empty = bulk_allocator_lists_seated_only[OF h0]
  show ?thesis
    using full empty h3 h0 by (simp add: dims s3 s0)
qed

section \<open>The next-free-seat finder\<close>

lemma isOccupied_iff:
  "isOccupied as r s \<longleftrightarrow> (\<exists>a \<in> set as. row a = r \<and> seat a = s \<and> student a \<noteq> None)"
  by (induction as) auto

lemma find_app:
  "find P (xs @ ys) = (case find P xs of None \<Rightarrow> find P ys | Some x \<Rightarrow> Some x)"
  by (induction xs) auto

lemma find_holds: "find P xs = Some x \<Longrightarrow> P x"
  by (induction xs) (auto split: if_splits)

lemma seats_find:
  "findNextAvailableSeat_seats as c r s =
     find (\<lambda>p. \<not> isOccupied as (fst p) (snd p)) (map (Pair r) [s..c])"
proof (induction as c r s rule: findNextAvailableSeat_seats.induct)
  case (1 as c r s)
  show ?case
  proof (cases "s \<le> c")
    case True
    then have cells: "[s..c] = s # [s + 1..c]" by (rule upto_rec1)
    show ?thesis
      using True 1 by (subst findNextAvailableSeat_seats.simps) (simp add: cells)
  next
    case False
    then show ?thesis by (subst findNextAvailableSeat_seats.simps) simp
  qed
qed

lemma rows_find:
  "findNextAvailableSeat_rows as n c r =
     find (\<lambda>p. \<not> isOccupied as (fst p) (snd p)) (List.product [r..n] [1..c])"
proof (induction as n c r rule: findNextAvailableSeat_rows.induct)
  case (1 as n c r)
  show ?case
  proof (cases "r \<le> n")
    case True
    then have cells: "[r..n] = r # [r + 1..n]" by (rule upto_rec1)
    show ?thesis
    proof (cases "findNextAvailableSeat_seats as c r 1")
      case None
      then show ?thesis
        using True 1[OF True None] seats_find[of as c r 1]
        by (subst findNextAvailableSeat_rows.simps) (simp add: cells find_app)
    next
      case (Some p)
      then show ?thesis
        using True seats_find[of as c r 1]
        by (subst findNextAvailableSeat_rows.simps) (simp add: cells find_app)
    qed
  next
    case False
    then show ?thesis by (subst findNextAvailableSeat_rows.simps) simp
  qed
qed

lemma finder_refines:
  "hallConfig st = Some h \<Longrightarrow>
   findNextAvailableSeat st = firstFreeRowMajor (seatAssignments st) (rows h) (seatsPerRow h)"
  by (simp add: findNextAvailableSeat_def firstFreeRowMajor_def rows_find)

lemma firstFree_None:
  "firstFreeRowMajor as n c = None \<longleftrightarrow> (\<forall>r \<in> {1..n}. \<forall>s \<in> {1..c}. isOccupied as r s)"
  by (auto simp: firstFreeRowMajor_def find_None_iff)

lemma firstFree_corner:
  assumes "1 \<le> n" and "1 \<le> c" and "\<not> isOccupied as 1 1"
  shows "firstFreeRowMajor as n c = Some (1, 1)"
proof -
  have "[1..n] = 1 # [1 + 1..n]" and "[1..c] = 1 # [1 + 1..c]"
    using assms(1,2) by (simp_all add: upto_rec1)
  then show ?thesis using assms(3) by (simp add: firstFreeRowMajor_def)
qed

lemmas eval_defs = sampleRun_def sampleStaleRun_def initialPage_def initialState_def
  sampleHall_def sampleState_def sampleSeated_def sampleCornerFree_def sampleFull_def dropScan_def
  handleStudentAdded_def handleHallConfigured_def handleStudentRecognized_def
  generateAutomaticSeating_def findNextAvailableSeat_def
  findNextAvailableSeat_rows.simps findNextAvailableSeat_seats.simps
  generateAutomaticSeating_rows.simps generateAutomaticSeating_seats.simps

text \<open>
  Claim C4. For every assignment list and hall of \<open>R\<close> rows and \<open>C\<close> seats per row,
  \<^verbatim>\<open>findNextAvailableSeat\<close> returns the first coordinate, in the order of rows
  \<open>1..R\<close> and within a row seats \<open>1..C\<close>, that no entry with a student occupies. With
  every seat but \<open>(1, 1)\<close> taken it returns \<open>(1, 1)\<close>; it returns no seat exactly when
  every seat of the hall is taken.
\<close>

theorem finder_first_free:
  assumes "hallConfig st = Some h"
  shows "findNextAvailableSeat st =
           firstFreeRowMajor (seatAssignments st) (rows h) (seatsPerRow h) \<and>
         (isOccupied (seatAssignments st) r s \<longleftrightarrow>
            (\<exists>a \<in> set (seatAssignments st). coord a = (r, s) \<and> student a \<noteq> None)) \<and>
         (1 \<le> rows h \<and> 1 \<le> seatsPerRow h \<and> \<not> isOccupied (seatAssignments st) 1 1 \<longrightarrow>
            findNextAvailableSeat st = Some (1, 1)) \<and>
         (findNextAvailableSeat st = None \<longleftrightarrow>
            (\<forall>r \<in> {1..rows h}. \<forall>s \<in> {1..seatsPerRow h}. isOccupied (seatAssignments st) r s))"
  using assms
  by (simp add: finder_refines firstFree_None firstFree_corner isOccupied_iff coord_def)

theorem finder_first_free_witness:
  "hallConfig sampleCornerFree = Some (sampleHall 2 2) \<and>
   1 \<le> rows (sampleHall 2 2) \<and> 1 \<le> seatsPerRow (sampleHall 2 2) \<and>
   \<not> isOccupied (seatAssignments sampleCornerFree) 1 1 \<and>
   isOccupied (seatAssignments sampleCornerFree) 1 2 \<and>
   isOccupied (seatAssignments sampleCornerFree) 2 1 \<and>
   isOccupied (seatAssignments sampleCornerFree) 2 2 \<and>
   findNextAvailableSeat sampleCornerFree = Some (1, 1) \<and>
   hallConfig sampleFull = Some (sampleHall 1 2) \<and>
   isOccupied (seatAssignments sampleFull) 1 1 \<and>
   isOccupied (seatAssignments sampleFull) 1 2 \<and>
   findNextAvailableSeat sampleFull = None"
proof -
  have hs: "hallConfig sampleCornerFree = Some (sampleHall 2 2)"
    and ht: "hallConfig sampleFull = Some (sampleHall 1 2)"
    by (simp_all add: sampleCornerFree_def sampleFull_def sampleState_def)
  have free: "1 \<le> rows (sampleHall 2 2) \<and> 1 \<le> seatsPerRow (sampleHall 2 2) \<and>
      \<not> isOccupied (seatAssignments sampleCornerFree) 1 1"
    by (simp add: sampleCornerFree_def sampleHall_def sampleSeated_def)
  have taken: "isOccupied (seatAssignments sampleCornerFree) 1 2"
    "isOccupied (seatAssignments sampleCornerFree) 2 1"
    "isOccupied (seatAssignments sampleCornerFree) 2 2"
    by (simp_all add: sampleCornerFree_def sampleSeated_def)
  have occ: "isOccupied (seatAssignments sampleFull) 1 1"
    "isOccupied (seatAssignments sampleFull) 1 2"
    by (simp_all add: sampleFull_def sampleSeated_def)
  have full: "\<forall>r \<in> {1..rows (sampleHall 1 2)}. \<forall>s \<in> {1..seatsPerRow (sampleHall 1 2)}.
      isOccupied (seatAssignments sampleFull) r s"
  proof (intro ballI)
    fix r s :: int
    assume "r \<in> {1..rows (sampleHall 1 2)}" and "s \<in> {1..seatsPerRow (sampleHall 1 2)}"
    then have "r = 1" and "s = 1 \<or> s = 2" by (auto simp: sampleHall_def)
    then show "isOccupied (seatAssignments sampleFull) r s" using occ by auto
  qed
  from finder_first_free[OF hs] free
  have "findNextAvailableSeat sampleCornerFree = Some (1, 1)" by blast
  moreover from finder_first_free[OF ht] full
  have "findNextAvailableSeat sampleFull = None" by blast
  ultimately show ?thesis using hs ht free taken occ by simp
qed

section \<open>Invariants of the assignment list\<close>

lemma finder_free:
  assumes "findNextAvailableSeat st = Some (r, s)"
  shows "\<not> isOccupied (seatAssignments st) r s"
proof (cases "hallConfig st")
  case None
  then show ?thesis using assms by (simp add: findNextAvailableSeat_def)
next
  case (Some h)
  then have "find (\<lambda>p. \<not> isOccupied (seatAssignments st) (fst p) (snd p))
      (List.product [1..rows h] [1..seatsPerRow h]) = Some (r, s)"
    using assms by (simp add: finder_refines firstFreeRowMajor_def)
  then show ?thesis by (auto dest: find_holds)
qed

lemma free_not_listed:
  assumes "\<not> isOccupied as r s" and "\<forall>a \<in> set as. student a \<noteq> None"
  shows "(r, s) \<notin> set (map coord as)"
  using assms by (auto simp: isOccupied_iff coord_def)

lemma distinct_generate:
  assumes "distinct (map coord (seatAssignments st))"
  shows "distinct (map coord (seatAssignments (generateAutomaticSeating st)))"
proof (cases "hallConfig st")
  case None
  then show ?thesis using assms by (simp add: generateAutomaticSeating_def)
next
  case (Some h)
  then show ?thesis by (simp add: seatAssignments_generate distinct_rowMajorFill)
qed

lemma seated_generate:
  assumes "\<forall>a \<in> set (seatAssignments st). student a \<noteq> None"
  shows "\<forall>a \<in> set (seatAssignments (generateAutomaticSeating st)). student a \<noteq> None"
proof (cases "hallConfig st")
  case None
  then show ?thesis using assms by (simp add: generateAutomaticSeating_def)
next
  case (Some h)
  then show ?thesis by (auto simp: seatAssignments_generate dest: student_in_rowMajorFill)
qed

lemma seated_recognized:
  assumes "\<forall>a \<in> set (seatAssignments st). student a \<noteq> None"
  shows "\<forall>a \<in> set (seatAssignments (handleStudentRecognized x render st)). student a \<noteq> None"
  using assms by (auto simp: handleStudentRecognized_def split: option.splits)

text \<open>
  A recognition handled in the render of the state it writes keeps the coordinates
  distinct: the seat it finds is free in the very list it appends to.
\<close>

lemma distinct_recognized_same_render:
  assumes "distinct (map coord (seatAssignments st))"
    and "\<forall>a \<in> set (seatAssignments st). student a \<noteq> None"
  shows "distinct (map coord (seatAssignments (handleStudentRecognized x st st)))"
proof (cases "hallConfig st")
  case None
  then show ?thesis using assms(1) by (simp add: handleStudentRecognized_def)
next
  case (Some h)
  show ?thesis
  proof (cases "findNextAvailableSeat st")
    case None
    then show ?thesis using assms(1) Some by (simp add: handleStudentRecognized_def)
  next
    case (Some p)
    obtain r s where p: "p = (r, s)" by (cases p)
    have "(r, s) \<notin> set (map coord (seatAssignments st))"
      using finder_free[of st r s] Some p assms(2) by (intro free_not_listed) auto
    then show ?thesis
      using assms(1) Some p \<open>hallConfig st = Some h\<close>
      by (simp add: handleStudentRecognized_def coord_def)
  qed
qed

lemma step_keeps:
  assumes "\<forall>a \<in> set (seatAssignments (live p)). student a \<noteq> None"
  shows "\<forall>a \<in> set (seatAssignments (live (step e p))). student a \<noteq> None"
proof (cases e)
  case (StudentAdded x)
  then show ?thesis using assms by (simp add: handleStudentAdded_def)
next
  case (HallConfigured config)
  then show ?thesis by (simp add: handleHallConfigured_def)
next
  case GenerateSeating
  then show ?thesis using assms seated_generate by simp
next
  case ScanStarted
  then show ?thesis using assms by simp
next
  case (ScanRecognized i k)
  then show ?thesis using assms seated_recognized by simp
next
  case (ScanFailed i)
  then show ?thesis using assms by simp
qed

lemma run_keeps:
  "\<forall>a \<in> set (seatAssignments (live p)). student a \<noteq> None \<Longrightarrow>
   \<forall>a \<in> set (seatAssignments (live (run p es))). student a \<noteq> None"
proof (induction es arbitrary: p)
  case Nil
  then show ?case by simp
next
  case (Cons e es)
  have "\<forall>a \<in> set (seatAssignments (live (step e p))). student a \<noteq> None"
    using Cons.prems by (rule step_keeps)
  then show ?case using Cons.IH[of "step e p"] by simp
qed

lemma sampleRun_state:
  "live (run initialPage sampleRun) =
     \<lparr>students = [sampleStudent ''A'', sampleStudent ''B'', sampleStudent ''C''],
      hallConfig = Some (sampleHall 2 2),
      seatAssignments =
        [\<lparr>row = 1, seat = 1, student = Some (sampleStudent ''A'')\<rparr>,
         \<lparr>row = 1, seat = 2, student = Some (sampleStudent ''A'')\<rparr>]\<rparr>"
  by (simp add: eval_defs)

lemma sampleStaleRun_state:
  "live (run initialPage sampleStaleRun) =
     \<lparr>students = [sampleStudent ''A'', sampleStudent ''B''],
      hallConfig = Some (sampleHall 2 2),
      seatAssignments =
        [\<lparr>row = 1, seat = 1, student = Some (sampleStudent ''A'')\<rparr>,
         \<lparr>row = 1, seat = 2, student = Some (sampleStudent ''B'')\<rparr>,
         \<lparr>row = 1, seat = 1, student = Some (sampleStudent ''A'')\<rparr>]\<rparr>"
  by (simp add: eval_defs)

text \<open>
  Claim C5 asks that in every state a sequence of bulk allocations, recognitions and
  hall configurations reaches, the assignment list has at most one entry per
  (row, seat). The page does not keep it: a recognition looks its seat up in the
  render in which the scan was started and appends to the list the page holds two
  seconds later. With two students, a hall of 2 by 2, a scan started on the empty
  list and the bulk allocation before the scan ends, the list holds \<open>(1, 1)\<close> twice.
\<close>

theorem stale_render_duplicates_seat:
  "map coord (seatAssignments (live (run initialPage sampleStaleRun))) =
     [(1, 1), (1, 2), (1, 1)] \<and>
   \<not> distinct (map coord (seatAssignments (live (run initialPage sampleStaleRun))))"
  by (simp add: sampleStaleRun_state coord_def)

text \<open>
  Claim C10. In every reachable state every entry of the assignment list has a
  student: neither the bulk allocator nor a recognition stores an entry without one,
  though the type \<^verbatim>\<open>SeatAssignment\<close> has room for it. A recognition keeps this
  for any student and from any render.
\<close>

theorem every_entry_seated:
  "(\<forall>a \<in> set (seatAssignments (live (run initialPage es))). student a \<noteq> None) \<and>
   ((\<forall>a \<in> set (seatAssignments st). student a \<noteq> None) \<longrightarrow>
      (\<forall>a \<in> set (seatAssignments (handleStudentRecognized x render st)). student a \<noteq> None))"
proof -
  have "\<forall>a \<in> set (seatAssignments (live initialPage)). student a \<noteq> None"
    by (simp add: initialPage_def initialState_def)
  then have "\<forall>a \<in> set (seatAssignments (live (run initialPage es))). student a \<noteq> None"
    by (rule run_keeps)
  then show ?thesis using seated_recognized[of st x render] by blast
qed

lemma sampleRecognized_state:
  "seatAssignments (handleStudentRecognized (sampleStudent ''C'') sampleCornerFree sampleFull) =
     [\<lparr>row = 1, seat = 2, student = Some (sampleStudent ''B'')\<rparr>,
      \<lparr>row = 1, seat = 1, student = Some (sampleStudent ''A'')\<rparr>,
      \<lparr>row = 1, seat = 1, student = Some (sampleStudent ''C'')\<rparr>]"
  by (simp add: eval_defs)

theorem every_entry_seated_witness:
  "seatAssignments (live (run initialPage sampleRun)) =
     [\<lparr>row = 1, seat = 1, student = Some (sampleStudent ''A'')\<rparr>,
      \<lparr>row = 1, seat = 2, student = Some (sampleStudent ''A'')\<rparr>] \<and>
   student (seatAssignments (live (run initialPage sampleRun)) ! 0) \<noteq> None \<and>
   student (seatAssignments (live (run initialPage sampleRun)) ! 1) \<noteq> None \<and>
   student (seatAssignments sampleFull ! 0) \<noteq> None \<and>
   student (seatAssignments sampleFull ! 1) \<noteq> None \<and>
   length (seatAssignments sampleFull) = 2 \<and>
   student (seatAssignments
     (handleStudentRecognized (sampleStudent ''C'') sampleCornerFree sampleFull) ! 2) \<noteq> None"
proof -
  let ?out = "seatAssignments (live (run initialPage sampleRun))"
  let ?rec = "seatAssignments
     (handleStudentRecognized (sampleStudent ''C'') sampleCornerFree sampleFull)"
  have out: "?out =
     [\<lparr>row = 1, seat = 1, student = Some (sampleStudent ''A'')\<rparr>,
      \<lparr>row = 1, seat = 2, student = Some (sampleStudent ''A'')\<rparr>]"
    by (simp add: sampleRun_state)
  have mem: "?out ! 0 \<in> set ?out" "?out ! 1 \<in> set ?out"
    unfolding out by simp_all
  have full: "seatAssignments sampleFull =
     [\<lparr>row = 1, seat = 2, student = Some (sampleStudent ''B'')\<rparr>,
      \<lparr>row = 1, seat = 1, student = Some (sampleStudent ''A'')\<rparr>]"
    by (simp add: sampleFull_def sampleSeated_def)
  have pre: "\<forall>a \<in> set (seatAssignments sampleFull). student a \<noteq> None"
    unfolding full by simp
  have mem': "?rec ! 2 \<in> set ?rec"
    unfolding sampleRecognized_state by simp
  note inst = every_entry_seated[of sampleRun sampleFull "sampleStudent ''C''" sampleCornerFree]
  from inst mem have "student (?out ! 0) \<noteq> None" "student (?out ! 1) \<noteq> None"
    by blast+
  moreover from inst pre mem' have "student (?rec ! 2) \<noteq> None" by blast
  ultimately show ?thesis using out full by simp
qed

section \<open>Reconfiguration and the full hall\<close>

text \<open>
  Claim C6. Whatever the state before, \<^verbatim>\<open>handleHallConfigured\<close> with any
  configuration leaves an empty assignment list (and the new configuration in place).
\<close>

theorem reconfiguring_clears:
  "seatAssignments (handleHallConfigured config st) = [] \<and>
   hallConfig (handleHallConfigured config st) = Some config \<and>
   students (handleHallConfigured config st) = students st"
  by (simp add: handleHallConfigured_def)




section \<open>Validation in the forms\<close>

text \<open>
  Claim C8. A submission with a required field missing or a number out of range stops
  with no change of state: the hall form with an empty name, fewer than one row or
  fewer than one seat per row does not call \<^verbatim>\<open>onHallConfigured\<close>, and the
  registration form with name, email, roll number or photo missing does not call
  \<^verbatim>\<open>onStudentAdded\<close>; the page's state and the form stay as they were. These
  are the only submissions that stop.
\<close>

theorem invalid_submission_aborts:
  "(fst (ExamHallConfig_handleSubmit f) = None \<longleftrightarrow>
      form_name f = [] \<or> form_rows f < 1 \<or> form_seatsPerRow f < 1) \<and>
   (form_name f = [] \<or> form_rows f < 1 \<or> form_seatsPerRow f < 1 \<longrightarrow>
      submitHallForm f st = st) \<and>
   (fst (StudentRegistration_handleSubmit now g) = None \<longleftrightarrow>
      reg_name g = [] \<or> reg_email g = [] \<or> reg_rollNumber g = [] \<or>
      reg_photo g = None \<or> reg_photo g = Some []) \<and>
   (reg_name g = [] \<or> reg_email g = [] \<or> reg_rollNumber g = [] \<or>
    reg_photo g = None \<or> reg_photo g = Some [] \<longrightarrow>
      fst (snd (StudentRegistration_handleSubmit now g)) = g \<and>
      submitRegistration now g st = st)"
  by (simp add: ExamHallConfig_handleSubmit_def StudentRegistration_handleSubmit_def
      submitHallForm_def submitRegistration_def)

theorem invalid_submission_aborts_witness:
  "form_rows sampleHallForm < 1 \<and>
   fst (ExamHallConfig_handleSubmit sampleHallForm) = None \<and>
   submitHallForm sampleHallForm (live (run initialPage sampleRun)) =
     live (run initialPage sampleRun) \<and>
   reg_photo sampleRegistration = None \<and>
   fst (StudentRegistration_handleSubmit ''1700000000000'' sampleRegistration) = None \<and>
   fst (snd (StudentRegistration_handleSubmit ''1700000000000'' sampleRegistration)) =
     sampleRegistration \<and>
   submitRegistration ''1700000000000'' sampleRegistration
       (live (run initialPage sampleRun)) =
     live (run initialPage sampleRun)"
proof -
  have rows0: "form_rows sampleHallForm < 1" by (simp add: sampleHallForm_def)
  have nophoto: "reg_photo sampleRegistration = None" by (simp add: sampleRegistration_def)
  from invalid_submission_aborts[of sampleHallForm "live (run initialPage sampleRun)"
      "''1700000000000''" sampleRegistration] rows0 nophoto
  show ?thesis by simp
qed

section \<open>Export\<close>

text \<open>
  Claim C9. In every state the object that \<^verbatim>\<open>exportSeatingData\<close> serialises
  holds the current hall configuration, the whole list of students, exactly the
  assignments that have a student (in the list's order; entries without one are left
  out), and the time of generation.
\<close>

theorem export_contents:
  "export_hallConfig (exportSeatingData now st) = hallConfig st \<and>
   export_students (exportSeatingData now st) = students st \<and>
   assignments (exportSeatingData now st) =
     filter (\<lambda>a. student a \<noteq> None) (seatAssignments st) \<and>
   (a \<in> set (assignments (exportSeatingData now st)) \<longleftrightarrow>
      a \<in> set (seatAssignments st) \<and> student a \<noteq> None) \<and>
   subseq (assignments (exportSeatingData now st)) (seatAssignments st) \<and>
   generatedAt (exportSeatingData now st) = now"
  by (simp add: exportSeatingData_def)

theorem export_contents_witness:
  "seatAssignments sampleWithEmptySeat =
     [\<lparr>row = 1, seat = 1, student = Some (sampleStudent ''A'')\<rparr>,
      \<lparr>row = 1, seat = 2, student = None\<rparr>] \<and>
   assignments (exportSeatingData ''2026-01-01T00:00:00.000Z'' sampleWithEmptySeat) =
     [\<lparr>row = 1, seat = 1, student = Some (sampleStudent ''A'')\<rparr>] \<and>
   export_students (exportSeatingData ''2026-01-01T00:00:00.000Z'' sampleWithEmptySeat) =
     [sampleStudent ''A''] \<and>
   export_hallConfig (exportSeatingData ''2026-01-01T00:00:00.000Z'' sampleWithEmptySeat) =
     Some (sampleHall 1 2) \<and>
   generatedAt (exportSeatingData ''2026-01-01T00:00:00.000Z'' sampleWithEmptySeat) =
     ''2026-01-01T00:00:00.000Z''"
  using export_contents[of "''2026-01-01T00:00:00.000Z''" sampleWithEmptySeat]
  by (simp add: sampleWithEmptySeat_def sampleState_def)

end
